theory Spec2Isabelle
  imports Complex_Main
begin

section \<open>Python strings\<close>

text \<open>
  A Python \<open>str\<close> is a sequence of Unicode code points and \<open>len\<close> counts code points, so a
  string is modelled as a list of code points (natural numbers). ASCII literals are written
  through \<open>pystr_of\<close>.
\<close>

type_synonym codepoint = nat
type_synonym pystr = "codepoint list"

definition pystr_of :: "string \<Rightarrow> pystr" where
  "pystr_of s = map of_char s"

text \<open>
  \<open>str.isspace\<close> on one code point: the code points that CPython treats as whitespace
  (\<open>str.strip()\<close> and \<open>str.split()\<close> without arguments use this predicate).
\<close>

definition isspace :: "codepoint \<Rightarrow> bool" where
  "isspace c \<longleftrightarrow>
     (9 \<le> c \<and> c \<le> 13) \<or> (28 \<le> c \<and> c \<le> 32) \<or> c = 133 \<or> c = 160 \<or> c = 5760 \<or>
     (8192 \<le> c \<and> c \<le> 8202) \<or> c = 8232 \<or> c = 8233 \<or> c = 8239 \<or> c = 8287 \<or> c = 12288"

text \<open>\<open>s.strip()\<close>: leading and trailing whitespace removed.\<close>

definition strip :: "pystr \<Rightarrow> pystr" where
  "strip s = rev (dropWhile isspace (rev (dropWhile isspace s)))"

text \<open>
  \<open>s.split(sep)\<close> for a non-empty separator: scan from the left, cut at every
  non-overlapping occurrence of \<open>sep\<close>; \<open>cur\<close> is the fragment read so far. (Python raises
  ValueError for an empty separator; the program only splits on the two-character \<open>'. '\<close>.)
\<close>

function split_sep :: "pystr \<Rightarrow> pystr \<Rightarrow> pystr \<Rightarrow> pystr list" where
  "split_sep sep cur s =
     (if s = [] \<or> sep = [] then [cur @ s]
      else if take (length sep) s = sep then cur # split_sep sep [] (drop (length sep) s)
      else split_sep sep (cur @ [hd s]) (tl s))"
  by pat_completeness auto
termination
  by (relation "measure (\<lambda>(sep, cur, s). length s)") auto

declare split_sep.simps [simp del]

definition py_split :: "pystr \<Rightarrow> pystr \<Rightarrow> pystr list" where
  "py_split s sep = split_sep sep [] s"

text \<open>\<open>sep.join(parts)\<close>.\<close>

fun join :: "pystr \<Rightarrow> pystr list \<Rightarrow> pystr" where
  "join sep [] = []"
| "join sep [p] = p"
| "join sep (p # q # ps) = p @ sep @ join sep (q # ps)"

text \<open>Decimal digits of a natural number, and \<open>str(x)\<close> for an integer.\<close>

function nat_digits :: "nat \<Rightarrow> pystr" where
  "nat_digits n = (if n < 10 then [48 + n] else nat_digits (n div 10) @ [48 + n mod 10])"
  by pat_completeness auto
termination
  by (relation "measure id") auto

declare nat_digits.simps [simp del]

definition py_str :: "int \<Rightarrow> pystr" where
  "py_str x = (if x < 0 then 45 # nat_digits (nat (- x)) else nat_digits (nat x))"

text \<open>
  The format specification \<open>:02d\<close>: sign-aware zero padding to a total width of two; the
  subtraction on \<open>nat\<close> stops at zero, which is the case of a number that is wide enough.
\<close>

definition fmt_02d :: "int \<Rightarrow> pystr" where
  "fmt_02d x =
     (let ds = nat_digits (nat \<bar>x\<bar>);
          sign = (if x < 0 then [45] else []);
          pad = replicate (2 - (length sign + length ds)) 48
      in sign @ pad @ ds)"

section \<open>Subtitle formatter\<close>

text \<open>
  One caption block of \<open>create_srt_content\<close>, for the fragment \<open>line\<close> at index \<open>i\<close> of the
  enumeration: the four \<open>+=\<close> of the loop body. \<open>//\<close> and \<open>%\<close> by a positive constant are
  \<open>div\<close> and \<open>mod\<close> on \<open>int\<close> (both round towards minus infinity).
\<close>

definition caption_block :: "nat \<Rightarrow> int \<Rightarrow> pystr \<Rightarrow> pystr" where
  "caption_block i chunk_duration line =
     (let start_time = int i * chunk_duration;
          end_time = (int i + 1) * chunk_duration;
          start_hours = start_time div 3600;
          start_minutes = (start_time mod 3600) div 60;
          start_seconds = start_time mod 60;
          end_hours = end_time div 3600;
          end_minutes = (end_time mod 3600) div 60;
          end_seconds = end_time mod 60
      in py_str (int i + 1) @ pystr_of ''\<newline>''
         @ fmt_02d start_hours @ pystr_of '':'' @ fmt_02d start_minutes @ pystr_of '':''
         @ fmt_02d start_seconds @ pystr_of '',000 --> ''
         @ fmt_02d end_hours @ pystr_of '':'' @ fmt_02d end_minutes @ pystr_of '':''
         @ fmt_02d end_seconds @ pystr_of '',000\<newline>''
         @ strip line @ pystr_of ''.\<newline>\<newline>'')"

text \<open>The loop \<open>for i, line in enumerate(lines)\<close>, with the index and \<open>srt_content\<close> threaded.\<close>

fun srt_loop :: "int \<Rightarrow> nat \<Rightarrow> pystr list \<Rightarrow> pystr \<Rightarrow> pystr" where
  "srt_loop chunk_duration i [] srt_content = srt_content"
| "srt_loop chunk_duration i (line # lines) srt_content =
     srt_loop chunk_duration (Suc i) lines
       (if strip line \<noteq> [] then srt_content @ caption_block i chunk_duration line
        else srt_content)"

definition create_srt_content :: "pystr \<Rightarrow> int \<Rightarrow> pystr" where
  "create_srt_content transcript chunk_duration =
     srt_loop chunk_duration 0 (py_split transcript (pystr_of ''. '')) []"

text \<open>
  \<open>str.split()\<close> without arguments: runs of whitespace separate the tokens and no empty
  token is produced; \<open>cur\<close> is the token read so far.
\<close>

fun split_ws :: "pystr \<Rightarrow> pystr \<Rightarrow> pystr list" where
  "split_ws cur [] = (if cur = [] then [] else [cur])"
| "split_ws cur (c # cs) =
     (if isspace c then (if cur = [] then split_ws [] cs else cur # split_ws [] cs)
      else split_ws (cur @ [c]) cs)"

definition py_split_ws :: "pystr \<Rightarrow> pystr list" where
  "py_split_ws s = split_ws [] s"

text \<open>
  The number of whitespace-delimited tokens of a string, in the words of the specification:
  the positions where a token starts, that is, a character that is not whitespace and is
  either the first one or preceded by whitespace.
\<close>

definition token_count :: "pystr \<Rightarrow> nat" where
  "token_count s =
     length (filter (\<lambda>i. \<not> isspace (s ! i) \<and> (i = 0 \<or> isspace (s ! (i - 1)))) [0..<length s])"

text \<open>
  \<open>str.lower()\<close>. On a string of ASCII code points it maps \<open>A..Z\<close> to \<open>a..z\<close>. On a string
  with a code point beyond ASCII it follows the Unicode tables, which are not part of the
  program: that case is the parameter \<open>ul\<close>.
\<close>

definition ascii_lower :: "codepoint \<Rightarrow> codepoint" where
  "ascii_lower c = (if 65 \<le> c \<and> c \<le> 90 then c + 32 else c)"

definition py_lower :: "(pystr \<Rightarrow> pystr) \<Rightarrow> pystr \<Rightarrow> pystr" where
  "py_lower ul s = (if list_all (\<lambda>c. c < 128) s then map ascii_lower s else ul s)"

text \<open>
  \<open>os.path.splitext\<close> (the POSIX version): the extension starts at the last dot, if that dot
  comes after the last slash and some character between the slash and the dot is not a dot.
  \<open>rfind\<close> is \<open>str.rfind\<close> for one character, \<open>-1\<close> when it does not occur.
\<close>

definition rfind :: "pystr \<Rightarrow> codepoint \<Rightarrow> int" where
  "rfind p c =
     (if c \<in> set p then int (length p) - 1 - int (length (takeWhile (\<lambda>x. x \<noteq> c) (rev p)))
      else - 1)"

fun has_non_dot :: "pystr \<Rightarrow> bool" where
  "has_non_dot [] = False"
| "has_non_dot (c # cs) = (if c \<noteq> 46 then True else has_non_dot cs)"

definition splitext :: "pystr \<Rightarrow> pystr \<times> pystr" where
  "splitext p =
     (let sepIndex = rfind p 47;
          dotIndex = rfind p 46
      in if dotIndex > sepIndex \<and>
            has_non_dot (take (nat (dotIndex - (sepIndex + 1))) (drop (nat (sepIndex + 1)) p))
         then (take (nat dotIndex) p, drop (nat dotIndex) p)
         else (p, []))"

section \<open>Configuration\<close>

definition SUPPORTED_VIDEO_FORMATS :: "pystr list" where
  "SUPPORTED_VIDEO_FORMATS =
     map pystr_of [''.mp4'', ''.avi'', ''.mov'', ''.mkv'', ''.webm'', ''.flv'', ''.m4v'']"

definition MAX_FILE_SIZE :: nat where
  "MAX_FILE_SIZE = 200 * 1024 * 1024"

section \<open>Audio segments and \<open>range\<close>\<close>

text \<open>
  A pydub \<open>AudioSegment\<close> holds the frames of the waveform (a frame is the sample of every
  channel at one instant; it is modelled as one number, silence as \<open>0\<close>) and the frame rate in
  frames per second. The program uses two of its operations, \<open>len(audio)\<close> and the slice
  \<open>audio[a:b]\<close>; both count in milliseconds.
\<close>

record audio_segment =
  frames :: "int list"
  frame_rate :: nat

datatype py_error = ValueError | ZeroDivisionError | TooManyMissingFrames | DetectionError

text \<open>
  \<open>round(a / b)\<close> for natural numbers, \<open>b\<close> not zero: Python rounds to the nearest integer and
  a half to the even neighbour. pydub computes with floating-point numbers; the model
  computes exactly.
\<close>

definition py_round_div :: "nat \<Rightarrow> nat \<Rightarrow> nat" where
  "py_round_div a b =
     (let q = a div b; rest = a mod b
      in if 2 * rest < b then q
         else if b < 2 * rest then q + 1
         else if even q then q else q + 1)"

text \<open>
  \<open>len(audio)\<close>, which is \<open>round(1000 * (frame_count / frame_rate))\<close>: the duration in whole
  milliseconds. (With a frame rate of zero Python raises ZeroDivisionError; that case is
  written out where the program takes the length.)
\<close>

definition seg_len :: "audio_segment \<Rightarrow> nat" where
  "seg_len audio = py_round_div (1000 * length (frames audio)) (frame_rate audio)"

text \<open>\<open>int(audio.frame_count(ms))\<close>: the number of frames in \<open>ms\<close> milliseconds, rounded down.\<close>

definition frame_count_ms :: "audio_segment \<Rightarrow> nat \<Rightarrow> nat" where
  "frame_count_ms audio ms = (ms * frame_rate audio) div 1000"

text \<open>
  The slice \<open>audio[start:stop]\<close> for a start that is not negative (the program passes no
  other): both ends are cut off at \<open>len(audio)\<close> and converted to frame positions; the frames
  between them are taken, and where the waveform has fewer frames than that, the result is
  filled up with silent frames, unless more than two milliseconds are missing, which raises
  TooManyMissingFrames. The silent frame is made from the first frame of the data, so that
  empty data stays empty.
\<close>

definition seg_slice :: "audio_segment \<Rightarrow> int \<Rightarrow> int \<Rightarrow> py_error + audio_segment" where
  "seg_slice audio start stop =
     (let n = int (seg_len audio);
          s = frame_count_ms audio (nat (min start n));
          e = frame_count_ms audio (nat (min stop n));
          data = take (e - s) (drop s (frames audio));
          missing_frames = (e - s) - length data
      in if missing_frames \<noteq> 0 then
           (if 2 * frame_rate audio < 1000 * missing_frames then Inl TooManyMissingFrames
            else Inr (audio\<lparr>frames :=
                   data @ (if data = [] then [] else replicate missing_frames 0)\<rparr>))
         else Inr (audio\<lparr>frames := data\<rparr>))"

function range_up :: "int \<Rightarrow> int \<Rightarrow> int \<Rightarrow> int list" where
  "range_up i stop step = (if 0 < step \<and> i < stop then i # range_up (i + step) stop step else [])"
  by pat_completeness auto
termination
  by (relation "measure (\<lambda>(i, stop, step). nat (stop - i))") auto

function range_down :: "int \<Rightarrow> int \<Rightarrow> int \<Rightarrow> int list" where
  "range_down i stop step =
     (if step < 0 \<and> stop < i then i # range_down (i + step) stop step else [])"
  by pat_completeness auto
termination
  by (relation "measure (\<lambda>(i, stop, step). nat (i - stop))") auto

declare range_up.simps [simp del] range_down.simps [simp del]

text \<open>\<open>range(start, stop, step)\<close> as a list; a zero step raises ValueError.\<close>

definition py_range :: "int \<Rightarrow> int \<Rightarrow> int \<Rightarrow> py_error + int list" where
  "py_range start stop step =
     (if step = 0 then Inl ValueError
      else if 0 < step then Inr (range_up start stop step)
      else Inr (range_down start stop step))"

text \<open>The elements of a list comprehension, in order, up to the first one that raises.\<close>

fun collect :: "(py_error + 'a) list \<Rightarrow> py_error + 'a list" where
  "collect [] = Inr []"
| "collect (Inl e # xs) = Inl e"
| "collect (Inr x # xs) = (case collect xs of Inl e \<Rightarrow> Inl e | Inr ys \<Rightarrow> Inr (x # ys))"

text \<open>
  The comprehension \<open>[audio[i:i+chunk_length_ms] for i in range(0, len(audio), chunk_length_ms)]\<close>,
  which \<open>split_audio_into_chunks\<close> evaluates in both of its fallback branches. The arguments
  of \<open>range\<close> are evaluated first, so a frame rate of zero raises before a zero step does.
\<close>

definition fixed_length_chunks :: "audio_segment \<Rightarrow> int \<Rightarrow> py_error + audio_segment list" where
  "fixed_length_chunks audio chunk_length_ms =
     (if frame_rate audio = 0 then Inl ZeroDivisionError
      else case py_range 0 (int (seg_len audio)) chunk_length_ms of
             Inl e \<Rightarrow> Inl e
           | Inr starts \<Rightarrow> collect (map (\<lambda>i. seg_slice audio i (i + chunk_length_ms)) starts))"

section \<open>The outside world and the trace of effects\<close>

text \<open>
  The program calls a media decoder (moviepy), a waveform library (pydub) and a remote speech
  recognition service. What they answer is an input of the model: \<open>video_clip\<close> is the outcome
  of opening the video and writing its audio track, \<open>from_wav\<close> the outcome of loading the
  waveform, \<open>split_on_silence\<close> the outcome of silence detection on a waveform (it includes
  the evaluation of \<open>audio.dBFS\<close>), \<open>recognize\<close> the outcome of the body of the \<open>try\<close> in
  \<open>transcribe_audio_chunk\<close> for the segment at a given position, and \<open>unicode_lower\<close> is
  \<open>str.lower\<close> on strings beyond ASCII. The text carried by an exception is not modelled.
\<close>

datatype extract_outcome = AudioWritten | NoAudioStream | ExtractRaises

datatype load_outcome = Loaded audio_segment | LoadRaises

datatype silence_outcome = SilenceChunks "audio_segment list" | SilenceRaises

datatype recognition_outcome = Recognized pystr | UnknownValueError | RequestError | OtherError

record externals =
  video_clip :: extract_outcome
  from_wav :: load_outcome
  split_on_silence :: "audio_segment \<Rightarrow> silence_outcome"
  recognize :: "nat \<Rightarrow> audio_segment \<Rightarrow> pystr \<Rightarrow> recognition_outcome"
  unicode_lower :: "pystr \<Rightarrow> pystr"

text \<open>
  What the program does to the outside is a list of events, in the order of execution: the
  messages, widgets and progress reports it shows, and its calls of the decoder, the loader,
  the recognizer and \<open>time.sleep\<close>. Static page layout (headings, the sidebar, the tips
  column) and the names of the downloaded files are left out.
\<close>

datatype status =
    ExtractingAudio | SplittingAudio | ProcessingChunk nat nat | Assembling | Finished

datatype message =
    NoAudioTrack | ExtractionError | SplitError | SplitFailed
  | RecognitionServiceError | ChunkProcessingError
  | FileTooLarge nat | UnsupportedFormat pystr | NoTextFound
  | FileUploaded pystr | FileSizeInfo nat

datatype event =
    St_error message | St_warning message | St_success message | St_info message
  | Progress int status
  | Open_video | Load_wav | New_recognizer nat | Sleep
  | Text_area pystr | Download_txt pystr | Download_srt pystr
  | Metric_words nat | Metric_chars nat | Metric_duration int

section \<open>The pipeline\<close>

definition extract_audio_from_video :: "externals \<Rightarrow> bool \<times> event list" where
  "extract_audio_from_video ext =
     (case video_clip ext of
        NoAudioStream \<Rightarrow> (False, [Open_video, St_error NoAudioTrack])
      | AudioWritten \<Rightarrow> (True, [Open_video])
      | ExtractRaises \<Rightarrow> (False, [Open_video, St_error ExtractionError]))"

text \<open>
  \<open>split_audio_into_chunks\<close>. The inner \<open>try\<close> yields the chunks or raises; its bare
  \<open>except\<close> evaluates the fixed-length comprehension again, and what that raises reaches the
  outer \<open>except\<close>, which reports the error and returns the empty list.
\<close>

definition split_audio_into_chunks ::
    "externals \<Rightarrow> int \<Rightarrow> audio_segment list \<times> event list" where
  "split_audio_into_chunks ext chunk_length_ms =
     (case from_wav ext of
        LoadRaises \<Rightarrow> ([], [Load_wav, St_error SplitError])
      | Loaded audio \<Rightarrow>
          (let attempt =
                 (case split_on_silence ext audio of
                    SilenceRaises \<Rightarrow> Inl DetectionError
                  | SilenceChunks chunks \<Rightarrow>
                      if length chunks \<le> 1 then fixed_length_chunks audio chunk_length_ms
                      else Inr chunks);
               result =
                 (case attempt of
                    Inr chunks \<Rightarrow> Inr chunks
                  | Inl e \<Rightarrow> fixed_length_chunks audio chunk_length_ms)
           in case result of
                Inr chunks \<Rightarrow> (chunks, [Load_wav])
              | Inl e \<Rightarrow> ([], [Load_wav, St_error SplitError])))"

definition transcribe_audio_chunk ::
    "externals \<Rightarrow> nat \<Rightarrow> audio_segment \<Rightarrow> pystr \<Rightarrow> pystr \<times> event list" where
  "transcribe_audio_chunk ext i audio_chunk language =
     (case recognize ext i audio_chunk language of
        Recognized text \<Rightarrow> (text, [New_recognizer i])
      | UnknownValueError \<Rightarrow> ([], [New_recognizer i])
      | RequestError \<Rightarrow> ([], [New_recognizer i, St_warning RecognitionServiceError])
      | OtherError \<Rightarrow> ([], [New_recognizer i, St_warning ChunkProcessingError]))"

text \<open>\<open>if progress_callback: progress_callback(progress, message)\<close>.\<close>

definition report :: "bool \<Rightarrow> int \<Rightarrow> status \<Rightarrow> event list" where
  "report progress_callback progress st = (if progress_callback then [Progress progress st] else [])"

text \<open>
  The loop \<open>for i, chunk in enumerate(audio_chunks)\<close> of \<open>transcribe_video\<close>, with the index
  and \<open>transcript_parts\<close> threaded; it returns the final \<open>transcript_parts\<close> and its events.
\<close>

fun transcribe_loop ::
    "externals \<Rightarrow> pystr \<Rightarrow> bool \<Rightarrow> nat \<Rightarrow> nat \<Rightarrow> audio_segment list \<Rightarrow> pystr list
       \<Rightarrow> pystr list \<times> event list" where
  "transcribe_loop ext language cb total_chunks i [] transcript_parts = (transcript_parts, [])"
| "transcribe_loop ext language cb total_chunks i (chunk # chunks) transcript_parts =
     (let progress = 30 + (60 * int i) div int total_chunks;
          shown = report cb progress (ProcessingChunk (i + 1) total_chunks);
          (text, warned) = transcribe_audio_chunk ext i chunk language;
          parts = (if strip text \<noteq> [] then transcript_parts @ [strip text]
                   else transcript_parts);
          (final_parts, later) = transcribe_loop ext language cb total_chunks (Suc i) chunks parts
      in (final_parts, shown @ warned @ [Sleep] @ later))"

text \<open>
  \<open>transcribe_video\<close>, from the call of \<open>extract_audio_from_video\<close> on. No operation of the
  model raises inside its \<open>try\<close> (the three functions it calls catch every exception
  themselves), so the handler of the general error has no branch here; writing and deleting
  the temporary files is left out.
\<close>

definition transcribe_video ::
    "externals \<Rightarrow> pystr \<Rightarrow> int \<Rightarrow> bool \<Rightarrow> pystr option \<times> event list" where
  "transcribe_video ext language chunk_duration cb =
     (let ev1 = report cb 10 ExtractingAudio;
          (extracted, ev2) = extract_audio_from_video ext
      in if \<not> extracted then (None, ev1 @ ev2)
         else
           let ev3 = report cb 20 SplittingAudio;
               chunk_length_ms = chunk_duration * 1000;
               (audio_chunks, ev4) = split_audio_into_chunks ext chunk_length_ms
           in if audio_chunks = [] then (None, ev1 @ ev2 @ ev3 @ ev4 @ [St_error SplitFailed])
              else
                let total_chunks = length audio_chunks;
                    (transcript_parts, ev5) =
                       transcribe_loop ext language cb total_chunks 0 audio_chunks [];
                    ev6 = report cb 95 Assembling;
                    full_transcript = join (pystr_of '' '') transcript_parts;
                    ev7 = report cb 100 Finished
                in (if strip full_transcript \<noteq> [] then Some full_transcript else None,
                    ev1 @ ev2 @ ev3 @ ev4 @ ev5 @ ev6 @ ev7))"

section \<open>The application\<close>

text \<open>
  An uploaded file: its name and its bytes. \<open>main_app\<close> runs once per interaction; \<open>button\<close>
  is what \<open>st.button\<close> returns in this run.
\<close>

record uploaded_file =
  name :: pystr
  getvalue :: "nat list"

definition main_app ::
    "externals \<Rightarrow> uploaded_file option \<Rightarrow> bool \<Rightarrow> pystr \<Rightarrow> int \<Rightarrow> event list" where
  "main_app ext uploaded button selected_language chunk_duration =
     (case uploaded of
        None \<Rightarrow> []
      | Some f \<Rightarrow>
          (let file_size = length (getvalue f);
               file_extension = py_lower (unicode_lower ext) (snd (splitext (name f)))
           in if file_size > MAX_FILE_SIZE then [St_error (FileTooLarge file_size)]
              else if file_extension \<notin> set SUPPORTED_VIDEO_FORMATS
                then [St_error (UnsupportedFormat file_extension)]
              else
                [St_success (FileUploaded (name f)), St_info (FileSizeInfo file_size)] @
                (if button then
                   (let (transcript, evs) =
                          transcribe_video ext selected_language chunk_duration True
                    in evs @
                       (case transcript of
                          None \<Rightarrow> [St_error NoTextFound]
                        | Some t \<Rightarrow>
                            if t \<noteq> [] then
                              [Text_area t, Download_txt t,
                               Download_srt (create_srt_content t chunk_duration),
                               Metric_words (length (py_split_ws t)),
                               Metric_chars (length t),
                               Metric_duration chunk_duration]
                            else [St_error NoTextFound]))
                 else [])))"

section \<open>Notions used to state the properties\<close>

text \<open>
  The texts that \<open>transcribe_audio_chunk\<close> returns for the chunks of a list, in order, when
  the first chunk has position \<open>i\<close> in the enumeration.
\<close>

definition segment_texts :: "externals \<Rightarrow> pystr \<Rightarrow> nat \<Rightarrow> audio_segment list \<Rightarrow> pystr list" where
  "segment_texts ext language i chunks =
     map (\<lambda>k. fst (transcribe_audio_chunk ext (i + k) (chunks ! k) language))
       [0..<length chunks]"

text \<open>A string contains two consecutive ASCII spaces.\<close>

fun has_double_space :: "pystr \<Rightarrow> bool" where
  "has_double_space (a # b # s) = ((a = 32 \<and> b = 32) \<or> has_double_space (b # s))"
| "has_double_space s = False"

text \<open>A string is not empty and neither starts nor ends with whitespace.\<close>

definition trimmed :: "pystr \<Rightarrow> bool" where
  "trimmed p \<longleftrightarrow> p \<noteq> [] \<and> \<not> isspace (hd p) \<and> \<not> isspace (last p)"


text \<open>The event of a call of \<open>sr.Recognizer()\<close>, the first statement of \<open>transcribe_audio_chunk\<close>.\<close>

fun is_recognizer_call :: "event \<Rightarrow> bool" where
  "is_recognizer_call (New_recognizer i) = True"
| "is_recognizer_call e = False"

text \<open>
  The number of tokens that start in a string, given whether the character before it is
  whitespace (an auxiliary function for \<open>token_count\<close>).
\<close>

fun starts_after :: "bool \<Rightarrow> pystr \<Rightarrow> nat" where
  "starts_after b [] = 0"
| "starts_after b (c # cs) = (if \<not> isspace c \<and> b then 1 else 0) + starts_after (isspace c) cs"

text \<open>A time in seconds in the form \<open>HH:MM:SS,000\<close>.\<close>

definition time_code :: "int \<Rightarrow> pystr" where
  "time_code t =
     fmt_02d (t div 3600) @ pystr_of '':'' @ fmt_02d ((t mod 3600) div 60) @ pystr_of '':''
     @ fmt_02d (t mod 60) @ pystr_of '',000''"




subsection \<open>Example inputs\<close>

text \<open>A waveform at 1000 frames per second, so that a frame lasts one millisecond.\<close>

definition ms_wave :: "int list \<Rightarrow> audio_segment" where
  "ms_wave xs = \<lparr>frames = xs, frame_rate = 1000\<rparr>"

text \<open>
  A world in which the video decodes, the waveform is one millisecond long, silence
  detection fails and the recognizer answers every segment with \<open>a\<close>, two spaces, \<open>b\<close>.
\<close>

definition double_space_world :: externals where
  "double_space_world =
     \<lparr>video_clip = AudioWritten, from_wav = Loaded (ms_wave [0]),
      split_on_silence = (\<lambda>audio. SilenceRaises),
      recognize = (\<lambda>i chunk language. Recognized (pystr_of ''a  b'')),
      unicode_lower = (\<lambda>s. s)\<rparr>"

text \<open>
  A world with five segments from silence detection; the recognizer hears \<open>hello\<close> in the
  first and \<open>world\<close> in the last, and fails in the three possible ways in between.
\<close>

definition example_world :: externals where
  "example_world =
     \<lparr>video_clip = AudioWritten, from_wav = Loaded (ms_wave [1, 2, 3, 4, 5]),
      split_on_silence = (\<lambda>audio. SilenceChunks [ms_wave [1], ms_wave [2], ms_wave [3], ms_wave [4], ms_wave [5]]),
      recognize = (\<lambda>i chunk language.
         if i = 0 then Recognized (pystr_of '' hello '')
         else if i = 1 then RequestError
         else if i = 2 then UnknownValueError
         else if i = 3 then OtherError
         else Recognized (pystr_of ''world'')),
      unicode_lower = (\<lambda>s. s)\<rparr>"

text \<open>A world with two segments in which nothing but whitespace is recognized.\<close>

definition silent_world :: externals where
  "silent_world =
     \<lparr>video_clip = AudioWritten, from_wav = Loaded (ms_wave [1, 2]),
      split_on_silence = (\<lambda>audio. SilenceChunks [ms_wave [1], ms_wave [2]]),
      recognize = (\<lambda>i chunk language.
         if i = 0 then Recognized (pystr_of ''  '') else UnknownValueError),
      unicode_lower = (\<lambda>s. s)\<rparr>"





text \<open>Uploaded files: one byte over the size limit, a text file, a video in capitals.\<close>

definition oversized_upload :: uploaded_file where
  "oversized_upload = \<lparr>name = pystr_of ''big.mp4'', getvalue = replicate 209715201 0\<rparr>"

definition text_upload :: uploaded_file where
  "text_upload = \<lparr>name = pystr_of ''notes.txt'', getvalue = [1, 2, 3]\<rparr>"

definition video_upload :: uploaded_file where
  "video_upload = \<lparr>name = pystr_of ''clip.MP4'', getvalue = [1, 2, 3]\<rparr>"

section \<open>Properties\<close>

subsection \<open>Strings\<close>

lemma strip_is_prefix: "\<exists>k. rev (dropWhile P (rev zs)) = take k zs"
proof -
  have "rev (dropWhile P (rev zs)) = rev (drop (length (takeWhile P (rev zs))) (rev zs))"
    by (simp add: dropWhile_eq_drop)
  also have "\<dots> = take (length zs - length (takeWhile P (rev zs))) zs"
    by (simp add: rev_drop)
  finally show ?thesis by blast
qed

lemma strip_hd:
  assumes "strip s \<noteq> []"
  shows "\<not> isspace (hd (strip s))"
proof -
  let ?zs = "dropWhile isspace s"
  obtain k where k: "strip s = take k ?zs"
    using strip_is_prefix [of isspace ?zs] by (auto simp: strip_def)
  with assms have "0 < k" "?zs \<noteq> []" by (cases k; auto)+
  then have "hd (strip s) = hd ?zs" using k by simp
  moreover have "\<not> isspace (hd ?zs)" using \<open>?zs \<noteq> []\<close> by (rule hd_dropWhile)
  ultimately show ?thesis by simp
qed

lemma strip_last:
  assumes "strip s \<noteq> []"
  shows "\<not> isspace (last (strip s))"
proof -
  let ?ys = "dropWhile isspace (rev (dropWhile isspace s))"
  from assms have ne: "?ys \<noteq> []" by (simp add: strip_def)
  have "last (strip s) = hd ?ys" using ne by (simp add: strip_def last_rev)
  moreover have "\<not> isspace (hd ?ys)" using ne by (rule hd_dropWhile)
  ultimately show ?thesis by simp
qed

lemma strip_trimmed: "strip s \<noteq> [] \<Longrightarrow> trimmed (strip s)"
  by (simp add: trimmed_def strip_hd strip_last)

lemma isspace_32: "isspace 32"
  by (simp add: isspace_def)

lemma pystr_of_space: "pystr_of '' '' = [32]"
  by (simp add: pystr_of_def)

lemma has_double_space_append:
  "has_double_space (xs @ ys) \<longleftrightarrow>
     has_double_space xs \<or> has_double_space ys \<or>
     (xs \<noteq> [] \<and> ys \<noteq> [] \<and> last xs = 32 \<and> hd ys = 32)"
proof (induction xs)
  case Nil
  show ?case by simp
next
  case (Cons a xs)
  show ?case
  proof (cases xs)
    case Nil
    then show ?thesis by (cases ys) auto
  next
    case (Cons b zs)
    with Cons.IH show ?thesis by auto
  qed
qed

lemma join_trimmed:
  "ps \<noteq> [] \<Longrightarrow> \<forall>p \<in> set ps. trimmed p \<Longrightarrow>
     trimmed (join [32] ps) \<and>
     (has_double_space (join [32] ps) \<longrightarrow> (\<exists>p \<in> set ps. has_double_space p))"
proof (induction "[32::nat]" ps rule: join.induct)
  case 1
  then show ?case by simp
next
  case (2 p)
  then show ?case by simp
next
  case (3 p q ps)
  then have IH: "trimmed (join [32] (q # ps))"
      "has_double_space (join [32] (q # ps)) \<longrightarrow> (\<exists>p \<in> set (q # ps). has_double_space p)"
    and p: "trimmed p" by auto
  have c: "trimmed (join [32] (p # q # ps))"
    using IH(1) p by (auto simp: trimmed_def)
  have "has_double_space (join [32] (p # q # ps)) \<longrightarrow>
          has_double_space p \<or> has_double_space (join [32] (q # ps))"
    using IH(1) p isspace_32
    by (cases "join [32] (q # ps)") (auto simp: has_double_space_append trimmed_def)
  with IH(2) c show ?case by auto
qed

subsection \<open>The transcription loop\<close>

lemma segment_texts_Nil: "segment_texts ext language i [] = []"
  by (simp add: segment_texts_def)

lemma segment_texts_Cons:
  "segment_texts ext language i (c # cs) =
     fst (transcribe_audio_chunk ext i c language) # segment_texts ext language (Suc i) cs"
proof -
  have "[0..<length (c # cs)] = 0 # map Suc [0..<length cs]"
    by (simp add: upt_conv_Cons map_Suc_upt del: upt_Suc)
  then show ?thesis
    by (simp add: segment_texts_def comp_def del: upt_Suc)
qed

lemma transcribe_loop_parts:
  "fst (transcribe_loop ext language cb n i chunks parts) =
     parts @ filter (\<lambda>s. s \<noteq> []) (map strip (segment_texts ext language i chunks))"
proof (induction chunks arbitrary: i parts)
  case Nil
  show ?case by (simp add: segment_texts_Nil)
next
  case (Cons c cs)
  show ?case
    by (simp add: segment_texts_Cons Cons.IH Let_def case_prod_beta)
qed

text \<open>What \<open>transcribe_video\<close> returns, in terms of its three stages.\<close>

lemma transcribe_video_result:
  "fst (transcribe_video ext language chunk_duration cb) =
     (let chunks = fst (split_audio_into_chunks ext (chunk_duration * 1000));
          full = join (pystr_of '' '')
                   (fst (transcribe_loop ext language cb (length chunks) 0 chunks []))
      in if fst (extract_audio_from_video ext) \<and> chunks \<noteq> [] \<and> strip full \<noteq> []
         then Some full else None)"
  by (simp add: transcribe_video_def Let_def case_prod_beta)

lemma strip_empty_iff: "strip s = [] \<longleftrightarrow> (\<forall>c \<in> set s. isspace c)"
proof
  assume "strip s = []"
  then have all: "\<forall>x \<in> set (dropWhile isspace s). isspace x"
    by (simp add: strip_def dropWhile_eq_Nil_conv)
  have "dropWhile isspace s = []"
  proof (rule ccontr)
    assume ne: "dropWhile isspace s \<noteq> []"
    then have "\<not> isspace (hd (dropWhile isspace s))" by (rule hd_dropWhile)
    moreover have "hd (dropWhile isspace s) \<in> set (dropWhile isspace s)" using ne by simp
    ultimately show False using all by blast
  qed
  then show "\<forall>c \<in> set s. isspace c" by (simp add: dropWhile_eq_Nil_conv)
next
  assume "\<forall>c \<in> set s. isspace c"
  then show "strip s = []" by (auto simp: strip_def dest: set_dropWhileD)
qed

subsection \<open>Fixed-length slicing\<close>







subsection \<open>Rounding and frame positions\<close>









subsection \<open>The fixed-length slices\<close>


















subsection \<open>Word count\<close>

lemma split_ws_length:
  "length (split_ws cur s) = starts_after (cur = []) s + (if cur = [] then 0 else 1)"
  by (induction s arbitrary: cur) auto

lemma starts_index:
  "length (filter (\<lambda>i. \<not> isspace (s ! i) \<and> (if i = 0 then b else isspace (s ! (i - 1)))) [0..<length s])
     = starts_after b s"
proof (induction s arbitrary: b)
  case Nil
  show ?case by simp
next
  case (Cons c cs)
  have upt: "[0..<length (c # cs)] = 0 # map Suc [0..<length cs]"
    by (simp add: upt_conv_Cons map_Suc_upt del: upt_Suc)
  have "filter (\<lambda>i. \<not> isspace ((c # cs) ! i) \<and> (if i = 0 then b else isspace ((c # cs) ! (i - 1))))
           (map Suc [0..<length cs])
      = map Suc (filter (\<lambda>i. \<not> isspace (cs ! i) \<and> (if i = 0 then isspace c else isspace (cs ! (i - 1))))
           [0..<length cs])"
    unfolding filter_map comp_def
    by (rule arg_cong [where f = "map Suc"], rule filter_cong) (auto simp: nth_Cons')
  then show ?case
    unfolding upt using Cons.IH [of "isspace c"] by simp
qed

lemma token_count_split: "length (py_split_ws s) = token_count s"
proof -
  have "token_count s =
     length (filter (\<lambda>i. \<not> isspace (s ! i) \<and> (if i = 0 then True else isspace (s ! (i - 1)))) [0..<length s])"
    unfolding token_count_def
    by (rule arg_cong [where f = length], rule filter_cong) auto
  then show ?thesis
    by (simp add: py_split_ws_def split_ws_length starts_index)
qed

lemma main_app_accepted:
  "length (getvalue f) \<le> MAX_FILE_SIZE \<Longrightarrow>
   py_lower (unicode_lower ext) (snd (splitext (name f))) \<in> set SUPPORTED_VIDEO_FORMATS \<Longrightarrow>
   main_app ext (Some f) True language chunk_duration =
     [St_success (FileUploaded (name f)), St_info (FileSizeInfo (length (getvalue f)))]
     @ snd (transcribe_video ext language chunk_duration True)
     @ (case fst (transcribe_video ext language chunk_duration True) of
          None \<Rightarrow> [St_error NoTextFound]
        | Some t \<Rightarrow>
            if t \<noteq> [] then
              [Text_area t, Download_txt t, Download_srt (create_srt_content t chunk_duration),
               Metric_words (length (py_split_ws t)), Metric_chars (length t),
               Metric_duration chunk_duration]
            else [St_error NoTextFound])"
  by (simp add: main_app_def Let_def case_prod_beta)

lemma transcribe_video_Some_nonempty:
  "fst (transcribe_video ext language chunk_duration cb) = Some t \<Longrightarrow> strip t \<noteq> []"
  by (auto simp: transcribe_video_result Let_def split: if_splits)

lemma strip_nonempty: "strip t \<noteq> [] \<Longrightarrow> t \<noteq> []"
  by (auto simp: strip_def)

subsection \<open>Events of the transcription loop\<close>

lemma chunk_calls:
  "filter is_recognizer_call (snd (transcribe_audio_chunk ext i chunk language)) = [New_recognizer i]"
  "length (filter (\<lambda>e. e = Sleep) (snd (transcribe_audio_chunk ext i chunk language))) = 0"
  by (cases "recognize ext i chunk language"; simp add: transcribe_audio_chunk_def)+

lemma report_calls:
  "filter is_recognizer_call (report cb p st) = []"
  "length (filter (\<lambda>e. e = Sleep) (report cb p st)) = 0"
  by (simp_all add: report_def)

lemma transcribe_loop_calls:
  "filter is_recognizer_call (snd (transcribe_loop ext language cb n i chunks parts)) =
     map New_recognizer [i..<i + length chunks]"
proof (induction chunks arbitrary: i parts)
  case Nil
  show ?case by simp
next
  case (Cons c cs)
  have "[i..<i + length (c # cs)] = i # [Suc i..<Suc i + length cs]"
    by (simp add: upt_conv_Cons del: upt_Suc)
  then show ?case
    by (simp add: Let_def case_prod_beta chunk_calls report_calls Cons.IH del: upt_Suc)
qed

lemma transcribe_loop_sleeps:
  "length (filter (\<lambda>e. e = Sleep) (snd (transcribe_loop ext language cb n i chunks parts))) =
     length chunks"
  by (induction chunks arbitrary: i parts)
     (simp_all add: Let_def case_prod_beta chunk_calls report_calls)

subsection \<open>Validation of the upload\<close>

lemma MAX_FILE_SIZE_value: "MAX_FILE_SIZE = 209715200"
  by (simp add: MAX_FILE_SIZE_def)

lemma supported_lower: "fmt \<in> set SUPPORTED_VIDEO_FORMATS \<Longrightarrow> py_lower ul fmt = fmt"
  by (auto simp: SUPPORTED_VIDEO_FORMATS_def pystr_of_def py_lower_def ascii_lower_def)

lemma supported_ascii: "fmt \<in> set SUPPORTED_VIDEO_FORMATS \<Longrightarrow> list_all (\<lambda>c. c < 128) fmt"
  by (auto simp: SUPPORTED_VIDEO_FORMATS_def pystr_of_def)

lemma ascii_lower_ascii: "list_all (\<lambda>c. c < 128) (map ascii_lower x) \<Longrightarrow> list_all (\<lambda>c. c < 128) x"
  by (induction x) (auto simp: ascii_lower_def split: if_splits)

lemma ascii_variant_lower:
  "map ascii_lower x \<in> set SUPPORTED_VIDEO_FORMATS \<Longrightarrow> py_lower ul x = map ascii_lower x"
  using supported_ascii [of "map ascii_lower x"] ascii_lower_ascii [of x]
  by (simp add: py_lower_def)

subsection \<open>Caption blocks\<close>

lemma caption_block_layout:
  "caption_block k D line =
     py_str (int k + 1) @ pystr_of ''\<newline>'' @ time_code (int k * D) @ pystr_of '' --> ''
     @ time_code ((int k + 1) * D) @ pystr_of ''\<newline>'' @ strip line @ pystr_of ''.\<newline>\<newline>''"
  by (simp add: caption_block_def time_code_def Let_def pystr_of_def)

lemma srt_loop_blocks:
  "srt_loop D i lines acc =
     acc @ concat (map (\<lambda>k. if strip (lines ! k) \<noteq> [] then caption_block (i + k) D (lines ! k) else [])
                     [0..<length lines])"
proof (induction lines arbitrary: i acc)
  case Nil
  show ?case by simp
next
  case (Cons line lines)
  have upt: "[0..<length (line # lines)] = 0 # map Suc [0..<length lines]"
    by (simp add: upt_conv_Cons map_Suc_upt del: upt_Suc)
  show ?case
    unfolding upt by (simp add: Cons.IH comp_def cong: if_cong)
qed

lemma concat_map_if:
  "concat (map (\<lambda>k. if P k then f k else []) xs) = concat (map f (filter P xs))"
  by (induction xs) auto

lemma create_srt_content_blocks:
  "create_srt_content transcript D =
     concat (map (\<lambda>k. caption_block k D (py_split transcript (pystr_of ''. '') ! k))
       (filter (\<lambda>k. strip (py_split transcript (pystr_of ''. '') ! k) \<noteq> [])
          [0..<length (py_split transcript (pystr_of ''. ''))]))"
  by (simp add: create_srt_content_def srt_loop_blocks concat_map_if)

lemma split_sep_nonempty: "split_sep sep cur s \<noteq> []"
proof (induction sep cur s rule: split_sep.induct)
  case (1 sep cur s)
  then show ?case by (subst split_sep.simps) auto
qed

lemma split_sep_last:
  "s \<noteq> [] \<Longrightarrow> sep \<noteq> [] \<Longrightarrow>
     (if last (split_sep sep cur s) = [] then last s = last sep
      else last (last (split_sep sep cur s)) = last s)"
proof (induction sep cur s rule: split_sep.induct)
  case (1 sep cur s)
  show ?case
  proof (cases "take (length sep) s = sep")
    case True
    let ?s' = "drop (length sep) s"
    have eq: "split_sep sep cur s = cur # split_sep sep [] ?s'"
      using "1.prems" True by (subst split_sep.simps) simp
    have la: "last (split_sep sep cur s) = last (split_sep sep [] ?s')"
      using eq split_sep_nonempty by simp
    show ?thesis
    proof (cases "?s' = []")
      case True
      then have "split_sep sep [] ?s' = [[]]" by (subst split_sep.simps) simp
      moreover from True \<open>take (length sep) s = sep\<close> have "s = sep"
        by (metis append_take_drop_id append_Nil2)
      ultimately show ?thesis using la by simp
    next
      case False
      then have "last ?s' = last s" by simp
      with "1.IH"(1) [OF _ True False "1.prems"(2)] "1.prems" la show ?thesis
        by (auto split: if_splits)
    qed
  next
    case False
    have eq: "split_sep sep cur s = split_sep sep (cur @ [hd s]) (tl s)"
      using "1.prems" False by (subst split_sep.simps) simp
    show ?thesis
    proof (cases "tl s = []")
      case True
      then have "split_sep sep (cur @ [hd s]) (tl s) = [cur @ [hd s]]"
        by (subst split_sep.simps) simp
      moreover from True "1.prems" have "last s = hd s" by (cases s) auto
      ultimately show ?thesis using eq by simp
    next
      case nt: False
      then have "last (tl s) = last s" using "1.prems" by (cases s) auto
      with "1.IH"(2) [OF _ False nt "1.prems"(2)] "1.prems" eq show ?thesis
        by (auto split: if_splits)
    qed
  qed
qed

lemma trimmed_last_fragment:
  assumes "trimmed t"
  shows "strip (last (py_split t (pystr_of ''. ''))) \<noteq> []"
proof -
  let ?f = "last (py_split t (pystr_of ''. ''))"
  from assms have t: "t \<noteq> []" "\<not> isspace (last t)" by (simp_all add: trimmed_def)
  have sep: "pystr_of ''. '' = [46, 32]" by (simp add: pystr_of_def)
  have "if ?f = [] then last t = last [46, 32::nat] else last ?f = last t"
    unfolding py_split_def sep using t(1) by (intro split_sep_last) simp_all
  with t(2) isspace_32 have f: "?f \<noteq> []" "last ?f = last t"
    by (auto split: if_splits)
  have "last ?f \<in> set ?f" using f(1) by (rule last_in_set)
  moreover have "\<not> isspace (last ?f)" unfolding f(2) by (rule t(2))
  ultimately show ?thesis using strip_empty_iff by blast
qed

subsection \<open>Facts about the example inputs\<close>

lemma double_space_chunks:
  "split_audio_into_chunks double_space_world (30 * 1000) = ([ms_wave [0]], [Load_wav])"
  by (simp add: split_audio_into_chunks_def double_space_world_def fixed_length_chunks_def
      py_range_def range_up.simps seg_slice_def seg_len_def py_round_div_def frame_count_ms_def
      ms_wave_def Let_def)

lemma strip_a_b: "strip (pystr_of ''a  b'') = pystr_of ''a  b''"
  by (simp add: strip_def pystr_of_def isspace_def)

lemma strip_examples:
  "strip (pystr_of '' hello '') = pystr_of ''hello''"
  "strip (pystr_of ''world'') = pystr_of ''world''"
  "strip (pystr_of ''hello world'') = pystr_of ''hello world''"
  "strip (pystr_of ''  '') = []"
  "strip [] = []"
  by (simp_all add: strip_def pystr_of_def isspace_def)

lemma example_world_chunks:
  "split_audio_into_chunks example_world L =
     ([ms_wave [1], ms_wave [2], ms_wave [3], ms_wave [4], ms_wave [5]], [Load_wav])"
  by (simp add: split_audio_into_chunks_def example_world_def)

lemma example_world_outcomes:
  "recognize example_world 0 chunk language = Recognized (pystr_of '' hello '')"
  "recognize example_world 1 chunk language = RequestError"
  "recognize example_world 2 chunk language = UnknownValueError"
  "recognize example_world 3 chunk language = OtherError"
  "recognize example_world 4 chunk language = Recognized (pystr_of ''world'')"
  by (simp_all add: example_world_def)

lemma example_world_texts:
  "segment_texts example_world language 0 [ms_wave [1], ms_wave [2], ms_wave [3], ms_wave [4], ms_wave [5]] =
     [pystr_of '' hello '', [], [], [], pystr_of ''world'']"
  by (simp add: segment_texts_Cons segment_texts_Nil transcribe_audio_chunk_def
      example_world_def)


lemma example_world_transcript:
  "fst (transcribe_video example_world language chunk_duration cb) = Some (pystr_of ''hello world'')"
proof -
  have "join (pystr_of '' '') [pystr_of ''hello'', pystr_of ''world''] = pystr_of ''hello world''"
    by (simp add: pystr_of_def)
  moreover have "pystr_of ''hello'' \<noteq> []" "pystr_of ''world'' \<noteq> []" "pystr_of ''hello world'' \<noteq> []"
    by (simp_all add: pystr_of_def)
  moreover have "fst (extract_audio_from_video example_world)"
    by (simp add: extract_audio_from_video_def example_world_def)
  ultimately show ?thesis
    by (simp add: transcribe_video_result example_world_chunks transcribe_loop_parts
        example_world_texts strip_examples)
qed

lemma silent_world_chunks:
  "split_audio_into_chunks silent_world L = ([ms_wave [1], ms_wave [2]], [Load_wav])"
  by (simp add: split_audio_into_chunks_def silent_world_def)

lemma silent_world_texts:
  "segment_texts silent_world language 0 [ms_wave [1], ms_wave [2]] = [pystr_of ''  '', []]"
  by (simp add: segment_texts_Cons segment_texts_Nil transcribe_audio_chunk_def silent_world_def)






lemma video_upload_ok:
  "length (getvalue video_upload) \<le> MAX_FILE_SIZE"
  "snd (splitext (name video_upload)) = pystr_of ''.MP4''"
  "py_lower ul (pystr_of ''.MP4'') = pystr_of ''.mp4''"
  "map ascii_lower (pystr_of ''.MP4'') = pystr_of ''.mp4''"
  "pystr_of ''.mp4'' \<in> set SUPPORTED_VIDEO_FORMATS"
  by (simp_all add: video_upload_def MAX_FILE_SIZE_def splitext_def rfind_def pystr_of_def
      py_lower_def ascii_lower_def SUPPORTED_VIDEO_FORMATS_def Let_def)

lemma text_upload_ext:
  "snd (splitext (name text_upload)) = pystr_of ''.txt''"
  "py_lower ul (pystr_of ''.txt'') = pystr_of ''.txt''"
  "pystr_of ''.txt'' \<notin> set SUPPORTED_VIDEO_FORMATS"
  by (simp_all add: text_upload_def splitext_def rfind_def pystr_of_def
      py_lower_def ascii_lower_def SUPPORTED_VIDEO_FORMATS_def Let_def)

lemma oversized_upload_size: "length (getvalue oversized_upload) = 209715201"
  by (simp add: oversized_upload_def)

lemma hello_world_counts:
  "length (py_split_ws (pystr_of ''hello world'')) = 2"
  "length (pystr_of ''hello world'') = 11"
  by (simp_all add: py_split_ws_def pystr_of_def isspace_def)

lemma gap_split:
  "py_split (pystr_of ''a. . b'') (pystr_of ''. '') = [pystr_of ''a'', [], pystr_of ''b'']"
  by (simp add: py_split_def pystr_of_def split_sep.simps)

lemma trailing_split:
  "py_split (pystr_of ''Hello. '') (pystr_of ''. '') = [pystr_of ''Hello'', []]"
  by (simp add: py_split_def pystr_of_def split_sep.simps)

lemma strip_more_examples:
  "strip (pystr_of ''a'') = pystr_of ''a''"
  "strip (pystr_of ''b'') = pystr_of ''b''"
  "strip (pystr_of ''Hello'') = pystr_of ''Hello''"
  "strip (pystr_of ''Hello world'') = pystr_of ''Hello world''"
  "strip (pystr_of ''This is a test'') = pystr_of ''This is a test''"
  "strip (pystr_of ''Goodbye.'') = pystr_of ''Goodbye.''"
  by (simp_all add: strip_def pystr_of_def isspace_def)

lemma format_examples:
  "py_str 1 = [49]" "py_str 2 = [50]" "py_str 3 = [51]"
  "fmt_02d 0 = [48, 48]" "fmt_02d 30 = [51, 48]" "fmt_02d 1 = [48, 49]"
  by (simp_all add: py_str_def fmt_02d_def nat_digits.simps)

section \<open>Properties of the specification\<close>

text \<open>
  C1. For the transcript \<open>Hello world. This is a test. Goodbye.\<close> and chunk duration 30 the
  subtitle formatter produces three caption blocks, numbered 1, 2, 3, with the time ranges
  \<open>00:00:00,000 --> 00:00:30,000\<close>, \<open>00:00:30,000 --> 00:01:00,000\<close> and
  \<open>00:01:00,000 --> 00:01:30,000\<close>. The text line of the third block is \<open>Goodbye..\<close>: the
  last fragment keeps the period of the transcript and the loop appends another one, so it
  does not end with a single period.
\<close>

theorem create_srt_content_example:
  "create_srt_content (pystr_of ''Hello world. This is a test. Goodbye.'') 30 =
     pystr_of ''1\<newline>00:00:00,000 --> 00:00:30,000\<newline>Hello world.\<newline>\<newline>2\<newline>00:00:30,000 --> 00:01:00,000\<newline>This is a test.\<newline>\<newline>3\<newline>00:01:00,000 --> 00:01:30,000\<newline>Goodbye..\<newline>\<newline>''"
proof -
  have sp: "py_split (pystr_of ''Hello world. This is a test. Goodbye.'') (pystr_of ''. '')
        = [pystr_of ''Hello world'', pystr_of ''This is a test'', pystr_of ''Goodbye.'']"
    by (simp add: py_split_def pystr_of_def split_sep.simps)
  have ne: "pystr_of ''Hello world'' \<noteq> []" "pystr_of ''This is a test'' \<noteq> []"
      "pystr_of ''Goodbye.'' \<noteq> []"
    by (simp_all add: pystr_of_def)
  have "create_srt_content (pystr_of ''Hello world. This is a test. Goodbye.'') 30 =
     caption_block 0 30 (pystr_of ''Hello world'')
     @ caption_block (Suc 0) 30 (pystr_of ''This is a test'')
     @ caption_block (Suc (Suc 0)) 30 (pystr_of ''Goodbye.'')"
    by (simp add: create_srt_content_def sp strip_more_examples ne)
  also have "\<dots> = pystr_of ''1\<newline>00:00:00,000 --> 00:00:30,000\<newline>Hello world.\<newline>\<newline>2\<newline>00:00:30,000 --> 00:01:00,000\<newline>This is a test.\<newline>\<newline>3\<newline>00:01:00,000 --> 00:01:30,000\<newline>Goodbye..\<newline>\<newline>''"
    by (simp add: caption_block_def strip_more_examples format_examples) (simp add: pystr_of_def)
  finally show ?thesis .
qed

text \<open>
  C2, as amended. The assembled transcript is the join, with one ASCII space, of the stripped
  non-empty segment texts in their order. A transcript that \<open>transcribe_video\<close> returns is not
  empty and neither starts nor ends with whitespace, and it contains two consecutive spaces
  only if the stripped text of some segment does.
\<close>

theorem assembled_transcript:
  "join (pystr_of '' '') (fst (transcribe_loop ext language cb n 0 chunks [])) =
     join (pystr_of '' '') (filter (\<lambda>s. s \<noteq> []) (map strip (segment_texts ext language 0 chunks)))
   \<and> (\<forall>t. fst (transcribe_video ext language chunk_duration cb) = Some t \<longrightarrow>
        t = join (pystr_of '' '') (filter (\<lambda>s. s \<noteq> [])
              (map strip (segment_texts ext language 0
                 (fst (split_audio_into_chunks ext (chunk_duration * 1000))))))
        \<and> t \<noteq> [] \<and> \<not> isspace (hd t) \<and> \<not> isspace (last t)
        \<and> ((\<forall>s \<in> set (segment_texts ext language 0
                 (fst (split_audio_into_chunks ext (chunk_duration * 1000)))).
                \<not> has_double_space (strip s)) \<longrightarrow> \<not> has_double_space t))"
proof -
  let ?chunks = "fst (split_audio_into_chunks ext (chunk_duration * 1000))"
  let ?ps = "filter (\<lambda>s. s \<noteq> []) (map strip (segment_texts ext language 0 ?chunks))"
  have loop: "\<And>n chunks. fst (transcribe_loop ext language cb n 0 chunks []) =
     filter (\<lambda>s. s \<noteq> []) (map strip (segment_texts ext language 0 chunks))"
    by (simp add: transcribe_loop_parts)
  have tr: "\<forall>p \<in> set ?ps. trimmed p"
    by (auto simp: strip_trimmed)
  have B: "t = join (pystr_of '' '') ?ps \<and> t \<noteq> [] \<and> \<not> isspace (hd t) \<and> \<not> isspace (last t)
        \<and> ((\<forall>s \<in> set (segment_texts ext language 0 ?chunks). \<not> has_double_space (strip s))
             \<longrightarrow> \<not> has_double_space t)"
    if "fst (transcribe_video ext language chunk_duration cb) = Some t" for t
  proof -
    from that have t: "t = join [32] ?ps" and ne: "strip t \<noteq> []"
      by (auto simp: transcribe_video_result Let_def loop pystr_of_space split: if_splits)
    from ne have "t \<noteq> []" by (auto simp: strip_def)
    with t have "?ps \<noteq> []" by auto
    from join_trimmed [OF this tr] t
    have "trimmed t" "has_double_space t \<longrightarrow> (\<exists>p \<in> set ?ps. has_double_space p)" by auto
    then show ?thesis
      using t by (auto simp: trimmed_def pystr_of_space)
  qed
  have A: "join (pystr_of '' '') (fst (transcribe_loop ext language cb n 0 chunks [])) =
     join (pystr_of '' '') (filter (\<lambda>s. s \<noteq> []) (map strip (segment_texts ext language 0 chunks)))"
    by (simp add: loop)
  show ?thesis
    by (rule conjI [OF A]) (intro allI impI, rule B)
qed

theorem assembled_transcript_witness:
  "fst (transcribe_video example_world (pystr_of ''en-US'') 30 True) = Some (pystr_of ''hello world'')
   \<and> list_all (\<lambda>s. \<not> has_double_space (strip s))
         (segment_texts example_world (pystr_of ''en-US'') 0
            (fst (split_audio_into_chunks example_world (30 * 1000))))
   \<and> pystr_of ''hello world'' =
        join (pystr_of '' '') [pystr_of ''hello'', pystr_of ''world'']
   \<and> \<not> isspace (hd (pystr_of ''hello world'')) \<and> \<not> isspace (last (pystr_of ''hello world''))
   \<and> \<not> has_double_space (pystr_of ''hello world'')"
proof -
  have t: "fst (transcribe_video example_world (pystr_of ''en-US'') 30 True) =
      Some (pystr_of ''hello world'')"
    by (rule example_world_transcript)
  have texts: "segment_texts example_world (pystr_of ''en-US'') 0
      (fst (split_audio_into_chunks example_world (30 * 1000))) =
        [pystr_of '' hello '', [], [], [], pystr_of ''world'']"
    by (simp add: example_world_chunks example_world_texts)
  have clean: "\<forall>s \<in> set (segment_texts example_world (pystr_of ''en-US'') 0
                  (fst (split_audio_into_chunks example_world (30 * 1000)))).
         \<not> has_double_space (strip s)"
    unfolding texts by (simp add: strip_examples) (simp add: pystr_of_def)
  have j: "pystr_of ''hello world'' =
        join (pystr_of '' '') [pystr_of ''hello'', pystr_of ''world'']"
    by (simp add: pystr_of_def)
  from assembled_transcript [of example_world "pystr_of ''en-US''" True 5 "[]" 30]
  have "\<forall>t. fst (transcribe_video example_world (pystr_of ''en-US'') 30 True) = Some t \<longrightarrow>
          \<not> isspace (hd t) \<and> \<not> isspace (last t)
          \<and> ((\<forall>s \<in> set (segment_texts example_world (pystr_of ''en-US'') 0
                  (fst (split_audio_into_chunks example_world (30 * 1000)))).
                \<not> has_double_space (strip s)) \<longrightarrow> \<not> has_double_space t)"
    by blast
  with t clean have "\<not> isspace (hd (pystr_of ''hello world''))
      \<and> \<not> isspace (last (pystr_of ''hello world''))
      \<and> \<not> has_double_space (pystr_of ''hello world'')"
    by blast
  with t clean j show ?thesis by (simp add: list_all_iff)
qed

text \<open>
  C2 as stated fails: a segment text with two spaces inside gives a transcript with two
  consecutive spaces, since only the ends of a segment text are stripped.
\<close>

theorem double_space_counterexample:
  "fst (transcribe_video double_space_world (pystr_of ''en-US'') 30 True) = Some (pystr_of ''a  b'')
   \<and> has_double_space (pystr_of ''a  b'')"
proof -
  have "transcribe_audio_chunk double_space_world 0 (ms_wave [0]) (pystr_of ''en-US'') =
          (pystr_of ''a  b'', [New_recognizer 0])"
    by (simp add: transcribe_audio_chunk_def double_space_world_def)
  moreover have "pystr_of ''a  b'' \<noteq> []" by (simp add: pystr_of_def)
  moreover have "extract_audio_from_video double_space_world = (True, [Open_video])"
    by (simp add: extract_audio_from_video_def double_space_world_def)
  ultimately have "fst (transcribe_video double_space_world (pystr_of ''en-US'') 30 True)
      = Some (pystr_of ''a  b'')"
    using double_space_chunks
    by (simp add: transcribe_video_def Let_def strip_a_b)
  moreover have "has_double_space (pystr_of ''a  b'')" by (simp add: pystr_of_def)
  ultimately show ?thesis by simp
qed



text \<open>
  C4. If every segment transcription returns a text that is empty or consists of whitespace
  only, \<open>transcribe_video\<close> returns \<open>None\<close>, and for an accepted upload the application ends
  with the error message that no text was found.
\<close>

theorem no_text_found:
  "(\<forall>s \<in> set (segment_texts ext language 0 (fst (split_audio_into_chunks ext (chunk_duration * 1000)))).
       \<forall>c \<in> set s. isspace c) \<Longrightarrow>
   fst (transcribe_video ext language chunk_duration cb) = None \<and>
   (length (getvalue f) \<le> MAX_FILE_SIZE \<and>
    py_lower (unicode_lower ext) (snd (splitext (name f))) \<in> set SUPPORTED_VIDEO_FORMATS \<longrightarrow>
    main_app ext (Some f) True language chunk_duration =
      [St_success (FileUploaded (name f)), St_info (FileSizeInfo (length (getvalue f)))]
      @ snd (transcribe_video ext language chunk_duration True) @ [St_error NoTextFound])"
proof -
  let ?chunks = "fst (split_audio_into_chunks ext (chunk_duration * 1000))"
  assume "\<forall>s \<in> set (segment_texts ext language 0 ?chunks). \<forall>c \<in> set s. isspace c"
  then have "filter (\<lambda>s. s \<noteq> []) (map strip (segment_texts ext language 0 ?chunks)) = []"
    by (auto simp: filter_empty_conv strip_empty_iff)
  then have none: "fst (transcribe_video ext language chunk_duration cb) = None" for cb
    by (simp add: transcribe_video_result Let_def transcribe_loop_parts strip_def)
  then show ?thesis by (simp add: main_app_accepted)
qed

theorem no_text_found_witness:
  "list_all (\<lambda>s. list_all isspace s)
     (segment_texts silent_world (pystr_of ''en-US'') 0
        (fst (split_audio_into_chunks silent_world (30 * 1000))))
   \<and> length (getvalue video_upload) \<le> MAX_FILE_SIZE
   \<and> py_lower (unicode_lower silent_world) (snd (splitext (name video_upload)))
        \<in> set SUPPORTED_VIDEO_FORMATS
   \<and> fst (transcribe_video silent_world (pystr_of ''en-US'') 30 True) = None
   \<and> last (main_app silent_world (Some video_upload) True (pystr_of ''en-US'') 30) =
        St_error NoTextFound"
proof -
  have blank: "\<forall>s \<in> set (segment_texts silent_world (pystr_of ''en-US'') 0
                 (fst (split_audio_into_chunks silent_world (30 * 1000)))).
      \<forall>c \<in> set s. isspace c"
    by (simp add: silent_world_chunks silent_world_texts) (simp add: pystr_of_def isspace_def)
  have ok: "length (getvalue video_upload) \<le> MAX_FILE_SIZE"
      "py_lower (unicode_lower silent_world) (snd (splitext (name video_upload)))
        \<in> set SUPPORTED_VIDEO_FORMATS"
    by (simp_all add: video_upload_ok)
  from no_text_found [OF blank, of True video_upload] ok show ?thesis
    using blank by (simp add: list_all_iff)
qed

text \<open>
  C5. An uploaded file of more than 200 MiB is rejected with the size error and nothing
  else happens: the trace of the application is that one message, so the video is never
  opened, which is the first thing \<open>extract_audio_from_video\<close> does.
\<close>

theorem oversized_file_rejected:
  "MAX_FILE_SIZE < length (getvalue f) \<Longrightarrow>
     MAX_FILE_SIZE = 200 * 2 ^ 20
     \<and> main_app ext (Some f) button language chunk_duration =
         [St_error (FileTooLarge (length (getvalue f)))]
     \<and> Open_video \<notin> set (main_app ext (Some f) button language chunk_duration)
     \<and> hd (snd (extract_audio_from_video ext)) = Open_video"
  by (cases "video_clip ext")
     (simp_all add: main_app_def Let_def extract_audio_from_video_def MAX_FILE_SIZE_def)

theorem oversized_file_rejected_witness:
  "MAX_FILE_SIZE < length (getvalue oversized_upload)
   \<and> main_app example_world (Some oversized_upload) True (pystr_of ''en-US'') 30 =
       [St_error (FileTooLarge 209715201)]
   \<and> Open_video \<notin> set (main_app example_world (Some oversized_upload) True (pystr_of ''en-US'') 30)"
proof -
  have h: "MAX_FILE_SIZE < length (getvalue oversized_upload)"
    by (simp add: oversized_upload_size MAX_FILE_SIZE_value)
  from oversized_file_rejected [OF h, of example_world True "pystr_of ''en-US''" 30] h
  show ?thesis by (simp add: oversized_upload_size)
qed

text \<open>
  C6. A file whose extension, lowercased, differs from every supported format (lowercased)
  is rejected with a validation error whatever its size: the size error if it is too large,
  the format error otherwise; in both cases the trace is that one message. A file whose
  extension matches a supported format up to letter case, and whose size is within the
  limit, is accepted; this includes every spelling of a supported extension in ASCII
  capitals and small letters.
\<close>

theorem extension_check:
  "((\<forall>fmt \<in> set SUPPORTED_VIDEO_FORMATS.
        py_lower (unicode_lower ext) (snd (splitext (name f))) \<noteq> py_lower (unicode_lower ext) fmt) \<longrightarrow>
      main_app ext (Some f) button language chunk_duration =
        (if MAX_FILE_SIZE < length (getvalue f) then [St_error (FileTooLarge (length (getvalue f)))]
         else [St_error (UnsupportedFormat (py_lower (unicode_lower ext) (snd (splitext (name f)))))]))
   \<and> ((\<exists>fmt \<in> set SUPPORTED_VIDEO_FORMATS.
        py_lower (unicode_lower ext) (snd (splitext (name f))) = py_lower (unicode_lower ext) fmt)
       \<and> length (getvalue f) \<le> MAX_FILE_SIZE \<longrightarrow>
      take 2 (main_app ext (Some f) button language chunk_duration) =
        [St_success (FileUploaded (name f)), St_info (FileSizeInfo (length (getvalue f)))])
   \<and> (map ascii_lower (snd (splitext (name f))) \<in> set SUPPORTED_VIDEO_FORMATS \<longrightarrow>
        (\<exists>fmt \<in> set SUPPORTED_VIDEO_FORMATS.
          py_lower (unicode_lower ext) (snd (splitext (name f))) = py_lower (unicode_lower ext) fmt))"
proof (intro conjI impI)
  let ?x = "py_lower (unicode_lower ext) (snd (splitext (name f)))"
  assume "\<forall>fmt \<in> set SUPPORTED_VIDEO_FORMATS. ?x \<noteq> py_lower (unicode_lower ext) fmt"
  then have "?x \<notin> set SUPPORTED_VIDEO_FORMATS" using supported_lower by metis
  then show "main_app ext (Some f) button language chunk_duration =
        (if MAX_FILE_SIZE < length (getvalue f) then [St_error (FileTooLarge (length (getvalue f)))]
         else [St_error (UnsupportedFormat ?x)])"
    by (simp add: main_app_def Let_def)
next
  let ?x = "py_lower (unicode_lower ext) (snd (splitext (name f)))"
  assume "(\<exists>fmt \<in> set SUPPORTED_VIDEO_FORMATS. ?x = py_lower (unicode_lower ext) fmt)
       \<and> length (getvalue f) \<le> MAX_FILE_SIZE"
  then have "?x \<in> set SUPPORTED_VIDEO_FORMATS" "length (getvalue f) \<le> MAX_FILE_SIZE"
    using supported_lower by auto
  then show "take 2 (main_app ext (Some f) button language chunk_duration) =
        [St_success (FileUploaded (name f)), St_info (FileSizeInfo (length (getvalue f)))]"
    by (simp add: main_app_def Let_def)
next
  let ?x = "py_lower (unicode_lower ext) (snd (splitext (name f)))"
  assume a: "map ascii_lower (snd (splitext (name f))) \<in> set SUPPORTED_VIDEO_FORMATS"
  then have "?x = map ascii_lower (snd (splitext (name f)))" by (rule ascii_variant_lower)
  with a have "?x \<in> set SUPPORTED_VIDEO_FORMATS" by simp
  then show "\<exists>fmt \<in> set SUPPORTED_VIDEO_FORMATS. ?x = py_lower (unicode_lower ext) fmt"
    using supported_lower by metis
qed

theorem extension_check_witness:
  "list_all
     (\<lambda>fmt. py_lower (unicode_lower example_world) (snd (splitext (name text_upload)))
         \<noteq> py_lower (unicode_lower example_world) fmt)
     SUPPORTED_VIDEO_FORMATS
   \<and> main_app example_world (Some text_upload) True (pystr_of ''en-US'') 30 =
        [St_error (UnsupportedFormat (pystr_of ''.txt''))]
   \<and> map ascii_lower (snd (splitext (name video_upload))) \<in> set SUPPORTED_VIDEO_FORMATS
   \<and> length (getvalue video_upload) \<le> MAX_FILE_SIZE
   \<and> take 2 (main_app example_world (Some video_upload) True (pystr_of ''en-US'') 30) =
        [St_success (FileUploaded (pystr_of ''clip.MP4'')), St_info (FileSizeInfo 3)]"
proof -
  have no: "\<forall>fmt \<in> set SUPPORTED_VIDEO_FORMATS.
       py_lower (unicode_lower example_world) (snd (splitext (name text_upload)))
         \<noteq> py_lower (unicode_lower example_world) fmt"
    using text_upload_ext(3) by (auto simp: text_upload_ext(1,2) supported_lower)
  have small: "\<not> MAX_FILE_SIZE < length (getvalue text_upload)"
    by (simp add: text_upload_def MAX_FILE_SIZE_def)
  have yes: "map ascii_lower (snd (splitext (name video_upload))) \<in> set SUPPORTED_VIDEO_FORMATS"
    by (simp add: video_upload_ok)
  have size: "length (getvalue video_upload) \<le> MAX_FILE_SIZE"
    by (rule video_upload_ok)
  have 1: "main_app example_world (Some text_upload) True (pystr_of ''en-US'') 30 =
        [St_error (UnsupportedFormat (pystr_of ''.txt''))]"
    using extension_check [of example_world text_upload True "pystr_of ''en-US''" 30] no small
    by (simp add: text_upload_ext)
  have 2: "take 2 (main_app example_world (Some video_upload) True (pystr_of ''en-US'') 30) =
        [St_success (FileUploaded (name video_upload)),
         St_info (FileSizeInfo (length (getvalue video_upload)))]"
    using extension_check [of example_world video_upload True "pystr_of ''en-US''" 30] yes size
    by blast
  have "name video_upload = pystr_of ''clip.MP4''" "length (getvalue video_upload) = 3"
    by (simp_all add: video_upload_def)
  with no 1 yes size 2 show ?thesis by (simp add: list_all_iff)
qed

text \<open>
  C7. \<open>transcribe_audio_chunk\<close> returns a string in every case (in the model it has no
  failing result): the recognized text, the empty string when no speech is detected, and
  the empty string after a warning on a service error or any other error. The loop of
  \<open>transcribe_video\<close> visits every segment in order, whatever the outcomes: it creates one
  recognizer per position, sleeps once per segment, and collects the stripped non-empty
  texts of all segments.
\<close>

theorem recognition_failures_absorbed:
  "(\<forall>text. recognize ext i chunk language = Recognized text \<longrightarrow>
       transcribe_audio_chunk ext i chunk language = (text, [New_recognizer i]))
   \<and> (recognize ext i chunk language = UnknownValueError \<longrightarrow>
       transcribe_audio_chunk ext i chunk language = ([], [New_recognizer i]))
   \<and> (recognize ext i chunk language = RequestError \<longrightarrow>
       transcribe_audio_chunk ext i chunk language =
         ([], [New_recognizer i, St_warning RecognitionServiceError]))
   \<and> (recognize ext i chunk language = OtherError \<longrightarrow>
       transcribe_audio_chunk ext i chunk language =
         ([], [New_recognizer i, St_warning ChunkProcessingError]))
   \<and> filter is_recognizer_call (snd (transcribe_loop ext language cb n 0 chunks [])) =
       map New_recognizer [0..<length chunks]
   \<and> length (filter (\<lambda>e. e = Sleep) (snd (transcribe_loop ext language cb n 0 chunks []))) =
       length chunks
   \<and> fst (transcribe_loop ext language cb n 0 chunks []) =
       filter (\<lambda>s. s \<noteq> []) (map strip (segment_texts ext language 0 chunks))"
  using transcribe_loop_calls [of ext language cb n 0 chunks "[]"]
  by (simp add: transcribe_audio_chunk_def transcribe_loop_sleeps transcribe_loop_parts)

theorem recognition_failures_absorbed_witness:
  "recognize example_world 0 (ms_wave [1]) (pystr_of ''en-US'') = Recognized (pystr_of '' hello '')
   \<and> transcribe_audio_chunk example_world 0 (ms_wave [1]) (pystr_of ''en-US'') =
        (pystr_of '' hello '', [New_recognizer 0])
   \<and> recognize example_world 1 (ms_wave [2]) (pystr_of ''en-US'') = RequestError
   \<and> transcribe_audio_chunk example_world 1 (ms_wave [2]) (pystr_of ''en-US'') =
        ([], [New_recognizer 1, St_warning RecognitionServiceError])
   \<and> recognize example_world 2 (ms_wave [3]) (pystr_of ''en-US'') = UnknownValueError
   \<and> transcribe_audio_chunk example_world 2 (ms_wave [3]) (pystr_of ''en-US'') = ([], [New_recognizer 2])
   \<and> recognize example_world 3 (ms_wave [4]) (pystr_of ''en-US'') = OtherError
   \<and> transcribe_audio_chunk example_world 3 (ms_wave [4]) (pystr_of ''en-US'') =
        ([], [New_recognizer 3, St_warning ChunkProcessingError])
   \<and> fst (transcribe_loop example_world (pystr_of ''en-US'') True 5 0 [ms_wave [1], ms_wave [2], ms_wave [3], ms_wave [4], ms_wave [5]] []) =
        [pystr_of ''hello'', pystr_of ''world'']"
proof -
  note o = example_world_outcomes [of _ "pystr_of ''en-US''"]
  have ne: "pystr_of ''hello'' \<noteq> []" "pystr_of ''world'' \<noteq> []"
    by (simp_all add: pystr_of_def)
  have c0: "transcribe_audio_chunk example_world 0 (ms_wave [1]) (pystr_of ''en-US'') =
        (pystr_of '' hello '', [New_recognizer 0])"
    using recognition_failures_absorbed [of example_world 0 "ms_wave [1]" "pystr_of ''en-US''" True 5 "[]"]
      o(1) [of "ms_wave [1]"] by blast
  have c1: "transcribe_audio_chunk example_world 1 (ms_wave [2]) (pystr_of ''en-US'') =
        ([], [New_recognizer 1, St_warning RecognitionServiceError])"
    using recognition_failures_absorbed [of example_world 1 "ms_wave [2]" "pystr_of ''en-US''" True 5 "[]"]
      o(2) [of "ms_wave [2]"] by blast
  have c2: "transcribe_audio_chunk example_world 2 (ms_wave [3]) (pystr_of ''en-US'') = ([], [New_recognizer 2])"
    using recognition_failures_absorbed [of example_world 2 "ms_wave [3]" "pystr_of ''en-US''" True 5 "[]"]
      o(3) [of "ms_wave [3]"] by blast
  have c3: "transcribe_audio_chunk example_world 3 (ms_wave [4]) (pystr_of ''en-US'') =
        ([], [New_recognizer 3, St_warning ChunkProcessingError])"
    using recognition_failures_absorbed [of example_world 3 "ms_wave [4]" "pystr_of ''en-US''" True 5 "[]"]
      o(4) [of "ms_wave [4]"] by blast
  have A: "filter (\<lambda>s. s \<noteq> [])
          (map strip (segment_texts example_world (pystr_of ''en-US'') 0 [ms_wave [1], ms_wave [2], ms_wave [3], ms_wave [4], ms_wave [5]])) =
        [pystr_of ''hello'', pystr_of ''world'']"
    by (simp add: example_world_texts strip_examples ne)
  have B: "fst (transcribe_loop example_world (pystr_of ''en-US'') True 5 0
                        [ms_wave [1], ms_wave [2], ms_wave [3], ms_wave [4], ms_wave [5]] []) =
      filter (\<lambda>s. s \<noteq> [])
        (map strip (segment_texts example_world (pystr_of ''en-US'') 0 [ms_wave [1], ms_wave [2], ms_wave [3], ms_wave [4], ms_wave [5]]))"
    using recognition_failures_absorbed
            [of example_world 0 "ms_wave [1]" "pystr_of ''en-US''" True 5 "[ms_wave [1], ms_wave [2], ms_wave [3], ms_wave [4], ms_wave [5]]"]
    by blast
  have l: "fst (transcribe_loop example_world (pystr_of ''en-US'') True 5 0
                        [ms_wave [1], ms_wave [2], ms_wave [3], ms_wave [4], ms_wave [5]] []) = [pystr_of ''hello'', pystr_of ''world'']"
    by (rule trans [OF B A])
  show ?thesis
    using c0 c1 c2 c3 l o(1) [of "ms_wave [1]"] o(2) [of "ms_wave [2]"] o(3) [of "ms_wave [3]"] o(4) [of "ms_wave [4]"]
    by (intro conjI)
qed

text \<open>
  C8. \<open>len(transcript.split())\<close> is the number of whitespace-delimited tokens of the
  transcript, for every string. When a transcript is produced for an accepted upload, the
  application shows that number as the word count and the length of the transcript, every
  character counted, as the character count.
\<close>

theorem displayed_statistics:
  "(\<forall>s. length (py_split_ws s) = token_count s) \<and>
   (length (getvalue f) \<le> MAX_FILE_SIZE \<and>
    py_lower (unicode_lower ext) (snd (splitext (name f))) \<in> set SUPPORTED_VIDEO_FORMATS \<and>
    fst (transcribe_video ext language chunk_duration True) = Some t \<longrightarrow>
    main_app ext (Some f) True language chunk_duration =
      [St_success (FileUploaded (name f)), St_info (FileSizeInfo (length (getvalue f)))]
      @ snd (transcribe_video ext language chunk_duration True)
      @ [Text_area t, Download_txt t, Download_srt (create_srt_content t chunk_duration),
         Metric_words (token_count t), Metric_chars (length t), Metric_duration chunk_duration])"
proof (intro conjI allI impI)
  fix s show "length (py_split_ws s) = token_count s" by (rule token_count_split)
next
  assume a: "length (getvalue f) \<le> MAX_FILE_SIZE \<and>
    py_lower (unicode_lower ext) (snd (splitext (name f))) \<in> set SUPPORTED_VIDEO_FORMATS \<and>
    fst (transcribe_video ext language chunk_duration True) = Some t"
  then have "t \<noteq> []" using transcribe_video_Some_nonempty strip_nonempty by blast
  then show "main_app ext (Some f) True language chunk_duration =
      [St_success (FileUploaded (name f)), St_info (FileSizeInfo (length (getvalue f)))]
      @ snd (transcribe_video ext language chunk_duration True)
      @ [Text_area t, Download_txt t, Download_srt (create_srt_content t chunk_duration),
         Metric_words (token_count t), Metric_chars (length t), Metric_duration chunk_duration]"
    using a by (simp add: main_app_accepted token_count_split)
qed

theorem displayed_statistics_witness:
  "length (getvalue video_upload) \<le> MAX_FILE_SIZE
   \<and> py_lower (unicode_lower example_world) (snd (splitext (name video_upload)))
        \<in> set SUPPORTED_VIDEO_FORMATS
   \<and> fst (transcribe_video example_world (pystr_of ''en-US'') 30 True) =
        Some (pystr_of ''hello world'')
   \<and> Metric_words 2 \<in> set (main_app example_world (Some video_upload) True (pystr_of ''en-US'') 30)
   \<and> Metric_chars 11 \<in> set (main_app example_world (Some video_upload) True (pystr_of ''en-US'') 30)"
proof -
  have h: "length (getvalue video_upload) \<le> MAX_FILE_SIZE
   \<and> py_lower (unicode_lower example_world) (snd (splitext (name video_upload)))
        \<in> set SUPPORTED_VIDEO_FORMATS
   \<and> fst (transcribe_video example_world (pystr_of ''en-US'') 30 True) =
        Some (pystr_of ''hello world'')"
    by (simp add: video_upload_ok example_world_transcript)
  have c: "token_count (pystr_of ''hello world'') = 2" "length (pystr_of ''hello world'') = 11"
    using hello_world_counts by (simp_all add: token_count_split)
  from displayed_statistics
         [of video_upload example_world "pystr_of ''en-US''" 30 "pystr_of ''hello world''"] h
  have "main_app example_world (Some video_upload) True (pystr_of ''en-US'') 30 =
      [St_success (FileUploaded (name video_upload)),
       St_info (FileSizeInfo (length (getvalue video_upload)))]
      @ snd (transcribe_video example_world (pystr_of ''en-US'') 30 True)
      @ [Text_area (pystr_of ''hello world''), Download_txt (pystr_of ''hello world''),
         Download_srt (create_srt_content (pystr_of ''hello world'') 30),
         Metric_words 2, Metric_chars 11, Metric_duration 30]"
    unfolding c by blast
  then show ?thesis using h by simp
qed




text \<open>
  C10, as amended. The output of \<open>create_srt_content\<close> is the sequence of the caption blocks
  of the fragments that are not blank, each built from the index \<open>k\<close> of the fragment in the
  full list \<open>transcript.split('. ')\<close>: number \<open>k + 1\<close>, the time range from \<open>k\<close> to \<open>k + 1\<close>
  chunk durations, and the stripped fragment with one period appended. A blank fragment
  emits nothing and keeps its index: when a blank fragment at index \<open>j\<close> comes before a
  fragment that is not blank, number \<open>j + 1\<close> is left out while a larger number is emitted,
  and for a chunk duration other than zero no emitted block starts at the time of slot \<open>j\<close>.
  The last fragment of a transcript that ends without whitespace, as every transcript of
  the pipeline does, is not blank, so there every blank fragment leaves such a gap.
\<close>

theorem caption_numbering:
  "create_srt_content transcript D =
     concat (map (\<lambda>k. caption_block k D (py_split transcript (pystr_of ''. '') ! k))
       (filter (\<lambda>k. strip (py_split transcript (pystr_of ''. '') ! k) \<noteq> [])
          [0..<length (py_split transcript (pystr_of ''. ''))]))
   \<and> (\<forall>k line. caption_block k D line =
         py_str (int k + 1) @ pystr_of ''\<newline>'' @ time_code (int k * D) @ pystr_of '' --> ''
         @ time_code ((int k + 1) * D) @ pystr_of ''\<newline>'' @ strip line
         @ pystr_of ''.\<newline>\<newline>'')
   \<and> (\<forall>j k. j < k \<and> k < length (py_split transcript (pystr_of ''. ''))
          \<and> strip (py_split transcript (pystr_of ''. '') ! j) = []
          \<and> strip (py_split transcript (pystr_of ''. '') ! k) \<noteq> [] \<longrightarrow>
        j \<notin> set (filter (\<lambda>k. strip (py_split transcript (pystr_of ''. '') ! k) \<noteq> [])
                   [0..<length (py_split transcript (pystr_of ''. ''))])
        \<and> k \<in> set (filter (\<lambda>k. strip (py_split transcript (pystr_of ''. '') ! k) \<noteq> [])
                   [0..<length (py_split transcript (pystr_of ''. ''))])
        \<and> (D \<noteq> 0 \<longrightarrow>
             (\<forall>e \<in> set (filter (\<lambda>k. strip (py_split transcript (pystr_of ''. '') ! k) \<noteq> [])
                   [0..<length (py_split transcript (pystr_of ''. ''))]).
                int e * D \<noteq> int j * D)))
   \<and> (trimmed transcript \<longrightarrow> strip (last (py_split transcript (pystr_of ''. ''))) \<noteq> [])"
proof (intro conjI allI impI ballI)
  show "create_srt_content transcript D =
     concat (map (\<lambda>k. caption_block k D (py_split transcript (pystr_of ''. '') ! k))
       (filter (\<lambda>k. strip (py_split transcript (pystr_of ''. '') ! k) \<noteq> [])
          [0..<length (py_split transcript (pystr_of ''. ''))]))"
    by (rule create_srt_content_blocks)
next
  fix k line
  show "caption_block k D line =
         py_str (int k + 1) @ pystr_of ''\<newline>'' @ time_code (int k * D) @ pystr_of '' --> ''
         @ time_code ((int k + 1) * D) @ pystr_of ''\<newline>'' @ strip line
         @ pystr_of ''.\<newline>\<newline>''"
    by (rule caption_block_layout)
next
  assume "trimmed transcript"
  then show "strip (last (py_split transcript (pystr_of ''. ''))) \<noteq> []"
    by (rule trimmed_last_fragment)
qed auto

theorem caption_numbering_witness:
  "(1::nat) < 2 \<and> 2 < length (py_split (pystr_of ''a. . b'') (pystr_of ''. ''))
   \<and> strip (py_split (pystr_of ''a. . b'') (pystr_of ''. '') ! 1) = []
   \<and> strip (py_split (pystr_of ''a. . b'') (pystr_of ''. '') ! 2) \<noteq> []
   \<and> (30::int) \<noteq> 0 \<and> trimmed (pystr_of ''a. . b'')
   \<and> 1 \<notin> set (filter (\<lambda>k. strip (py_split (pystr_of ''a. . b'') (pystr_of ''. '') ! k) \<noteq> [])
                  [0..<length (py_split (pystr_of ''a. . b'') (pystr_of ''. ''))])
   \<and> 2 \<in> set (filter (\<lambda>k. strip (py_split (pystr_of ''a. . b'') (pystr_of ''. '') ! k) \<noteq> [])
                  [0..<length (py_split (pystr_of ''a. . b'') (pystr_of ''. ''))])
   \<and> list_all (\<lambda>e. int e * 30 \<noteq> int 1 * 30)
         (filter (\<lambda>k. strip (py_split (pystr_of ''a. . b'') (pystr_of ''. '') ! k) \<noteq> [])
            [0..<length (py_split (pystr_of ''a. . b'') (pystr_of ''. ''))])
   \<and> strip (last (py_split (pystr_of ''a. . b'') (pystr_of ''. ''))) \<noteq> []"
proof -
  have ne: "pystr_of ''b'' \<noteq> []" by (simp add: pystr_of_def)
  have h: "(1::nat) < 2 \<and> 2 < length (py_split (pystr_of ''a. . b'') (pystr_of ''. ''))
      \<and> strip (py_split (pystr_of ''a. . b'') (pystr_of ''. '') ! 1) = []
      \<and> strip (py_split (pystr_of ''a. . b'') (pystr_of ''. '') ! 2) \<noteq> []"
    by (simp add: gap_split strip_examples strip_more_examples ne)
  have d: "(30::int) \<noteq> 0" by simp
  have t: "trimmed (pystr_of ''a. . b'')"
    by (simp add: trimmed_def pystr_of_def isspace_def)
  from caption_numbering [of "pystr_of ''a. . b''" 30] h d t
  have "1 \<notin> set (filter (\<lambda>k. strip (py_split (pystr_of ''a. . b'') (pystr_of ''. '') ! k) \<noteq> [])
                  [0..<length (py_split (pystr_of ''a. . b'') (pystr_of ''. ''))])
   \<and> 2 \<in> set (filter (\<lambda>k. strip (py_split (pystr_of ''a. . b'') (pystr_of ''. '') ! k) \<noteq> [])
                  [0..<length (py_split (pystr_of ''a. . b'') (pystr_of ''. ''))])
   \<and> (\<forall>e \<in> set (filter (\<lambda>k. strip (py_split (pystr_of ''a. . b'') (pystr_of ''. '') ! k) \<noteq> [])
                  [0..<length (py_split (pystr_of ''a. . b'') (pystr_of ''. ''))]).
         int e * 30 \<noteq> int 1 * 30)
   \<and> strip (last (py_split (pystr_of ''a. . b'') (pystr_of ''. ''))) \<noteq> []"
    by blast
  with h d t show ?thesis unfolding list_all_iff by blast
qed

text \<open>
  C10 as stated fails: the split of \<open>Hello. \<close> has a blank fragment, at the end, and the
  output is the single block number 1 from second 0 to second 30, with no gap in the
  numbers or the times.
\<close>

theorem trailing_blank_counterexample:
  "py_split (pystr_of ''Hello. '') (pystr_of ''. '') = [pystr_of ''Hello'', []]
   \<and> strip [] = []
   \<and> create_srt_content (pystr_of ''Hello. '') 30 =
        pystr_of ''1\<newline>00:00:00,000 --> 00:00:30,000\<newline>Hello.\<newline>\<newline>''"
proof -
  have ne: "pystr_of ''Hello'' \<noteq> []" by (simp add: pystr_of_def)
  have "create_srt_content (pystr_of ''Hello. '') 30 = caption_block 0 30 (pystr_of ''Hello'')"
    by (simp add: create_srt_content_def trailing_split strip_more_examples strip_examples ne)
  also have "\<dots> = pystr_of ''1\<newline>00:00:00,000 --> 00:00:30,000\<newline>Hello.\<newline>\<newline>''"
    by (simp add: caption_block_def strip_more_examples format_examples) (simp add: pystr_of_def)
  finally show ?thesis by (simp add: trailing_split strip_examples)
qed

end
